theory Spec2Isabelle
  imports Main "HOL-Library.Word"
begin

unbundle bit_operations_syntax

section \<open>Data model\<close>

text \<open>
  The connectors of \<^verbatim>\<open>redis_connector.py\<close> move memory objects between a local
  allocator and a Redis key space. Values in Redis are byte strings (the clients are
  created with \<^verbatim>\<open>decode_responses=False\<close>); a cache key is known to the connectors
  only through \<^verbatim>\<open>to_string()\<close>.
\<close>

type_synonym bytes = "8 word list"

datatype CacheEngineKey = CacheEngineKey (to_string: string)

text \<open>\<^verbatim>\<open>RemoteMetadata(length, shape, dtype, fmt)\<close>: the metadata envelope.\<close>

record RemoteMetadata =
  md_length :: nat
  md_shape :: "nat list"
  md_dtype :: nat
  md_fmt :: nat

text \<open>
  \<^verbatim>\<open>MemoryObj\<close>: the buffer \<^verbatim>\<open>byte_array\<close> and what \<^verbatim>\<open>get_shape()\<close>,
  \<^verbatim>\<open>get_dtype()\<close> and \<^verbatim>\<open>get_memory_format()\<close> answer.
\<close>

record MemoryObj =
  byte_array :: bytes
  get_shape :: "nat list"
  get_dtype :: nat
  get_memory_format :: nat

text \<open>
  The collaborators that are not part of this repository are parameters of the model: the
  metadata codec (\<^verbatim>\<open>RemoteMetadata.serialize\<close>, \<^verbatim>\<open>RemoteMetadata.deserialize\<close>, where
  \<open>None\<close> stands for the codec raising on malformed bytes) and the local allocator
  (\<^verbatim>\<open>local_cpu_backend.allocate(shape, dtype, fmt)\<close>, where \<open>None\<close> is Python's
  \<^verbatim>\<open>None\<close>: no memory). The answer of the allocator is taken to depend on the request
  only.
\<close>

record collaborators =
  serialize :: "RemoteMetadata \<Rightarrow> bytes"
  deserialize :: "bytes \<Rightarrow> RemoteMetadata option"
  allocate :: "nat list \<Rightarrow> nat \<Rightarrow> nat \<Rightarrow> MemoryObj option"

text \<open>Exceptions of the source are values.\<close>

datatype error = ConnectionError | DeserializeError | ValueError | IndexError | KeyError

datatype level = INFO | WARNING | ERROR

datatype command =
    Redis_SET string bytes
  | Redis_GET string
  | Redis_MGET "string list"
  | Redis_EXISTS "string list"
  | Redis_DEL string

text \<open>
  Everything a connector acts upon: the key space of the store, whether the store answers
  (an unreachable store makes every command raise), the commands the store has received in
  order, the entries written to the logger, and the memory objects on which
  \<^verbatim>\<open>ref_count_down()\<close> has been called. A replica is taken to be in sync with its
  primary, so the master and slave clients of the Sentinel connector address one key space.
  A sharded store is one key space as well: a command is answered from it whatever the
  shards of its keys.
  The semaphore \<^verbatim>\<open>self.sem\<close> bounds the number of store calls in flight and does not
  change what one call does; it is left out. Log messages are cut to their first sentence.
\<close>

record world =
  store :: "string \<rightharpoonup> bytes"
  reachable :: bool
  trace :: "command list"
  log :: "(level \<times> string) list"
  released :: "MemoryObj list"

definition logger :: "level \<Rightarrow> string \<Rightarrow> world \<Rightarrow> world" where
  "logger lv msg w = w\<lparr>log := log w @ [(lv, msg)]\<rparr>"

definition ref_count_down :: "MemoryObj \<Rightarrow> world \<Rightarrow> world" where
  "ref_count_down memory_obj w = w\<lparr>released := released w @ [memory_obj]\<rparr>"

section \<open>The store\<close>

fun apply_command :: "command \<Rightarrow> (string \<rightharpoonup> bytes) \<Rightarrow> (string \<rightharpoonup> bytes)" where
  "apply_command (Redis_SET k v) st = st(k \<mapsto> v)"
| "apply_command (Redis_DEL k) st = st(k := None)"
| "apply_command (Redis_GET k) st = st"
| "apply_command (Redis_MGET ks) st = st"
| "apply_command (Redis_EXISTS ks) st = st"

definition issue :: "command list \<Rightarrow> world \<Rightarrow> world" where
  "issue cmds w = w\<lparr>store := fold apply_command cmds (store w), trace := trace w @ cmds\<rparr>"


definition redis_get :: "string \<Rightarrow> world \<Rightarrow> (error + bytes option) \<times> world" where
  "redis_get k w =
     (if reachable w then (Inr (store w k), issue [Redis_GET k] w)
      else (Inl ConnectionError, w))"

definition redis_mget :: "string list \<Rightarrow> world \<Rightarrow> (error + bytes option list) \<times> world" where
  "redis_mget ks w =
     (if reachable w then (Inr (map (store w) ks), issue [Redis_MGET ks] w)
      else (Inl ConnectionError, w))"

definition redis_set :: "string \<Rightarrow> bytes \<Rightarrow> world \<Rightarrow> (error + unit) \<times> world" where
  "redis_set k v w =
     (if reachable w then (Inr (), issue [Redis_SET k v] w)
      else (Inl ConnectionError, w))"

definition redis_delete :: "string \<Rightarrow> world \<Rightarrow> (error + unit) \<times> world" where
  "redis_delete k w =
     (if reachable w then (Inr (), issue [Redis_DEL k] w)
      else (Inl ConnectionError, w))"

text \<open>
  A pipeline queues commands (\<^verbatim>\<open>pipe.set(..)\<close>) and \<^verbatim>\<open>pipe.execute()\<close> sends them:
  the store runs them in the order they were queued.
\<close>

definition pipeline_execute :: "command list \<Rightarrow> world \<Rightarrow> (error + unit) \<times> world" where
  "pipeline_execute pipe w =
     (if reachable w then (Inr (), issue pipe w) else (Inl ConnectionError, w))"

section \<open>Writing the payload into the allocated buffer\<close>

text \<open>
  \<^verbatim>\<open>view[: metadata.length] = kv_bytes\<close>: the slice of a memoryview is cut at the end of
  the buffer, and the assignment raises \<^verbatim>\<open>ValueError\<close> unless both sides have the same
  length.
\<close>

definition view_assign :: "MemoryObj \<Rightarrow> nat \<Rightarrow> bytes \<Rightarrow> error + MemoryObj" where
  "view_assign memory_obj n kv_bytes =
     (if min n (length (byte_array memory_obj)) = length kv_bytes
      then Inr (memory_obj\<lparr>byte_array :=
                  kv_bytes @ drop (length kv_bytes) (byte_array memory_obj)\<rparr>)
      else Inl ValueError)"

text \<open>The envelope \<^verbatim>\<open>RemoteMetadata(len(kv_bytes), kv_shape, kv_dtype, memory_format)\<close>.\<close>

definition metadata_of :: "MemoryObj \<Rightarrow> RemoteMetadata" where
  "metadata_of memory_obj =
     \<lparr>md_length = length (byte_array memory_obj), md_shape = get_shape memory_obj,
      md_dtype = get_dtype memory_obj, md_fmt = get_memory_format memory_obj\<rparr>"

section \<open>RedisConnector (standalone)\<close>

text \<open>
  The methods with a leading underscore are the bodies of the jobs; a method \<^verbatim>\<open>_m\<close> of
  the class is \<open>RedisConnector__m\<close> here. The store answers byte strings, so of the three
  \<^verbatim>\<open>isinstance\<close> branches that copy \<^verbatim>\<open>kv_bytes\<close> into the view the first one runs.
\<close>

definition RedisConnector__get_keys :: "CacheEngineKey \<Rightarrow> string \<times> string" where
  "RedisConnector__get_keys key =
     (let key_str = to_string key
      in (key_str @ '':metadata'', key_str @ '':kv_bytes''))"


definition RedisConnector__get ::
  "collaborators \<Rightarrow> CacheEngineKey \<Rightarrow> world \<Rightarrow> (error + MemoryObj option) \<times> world" where
  "RedisConnector__get d key w =
     (let (metadata_key, kv_key) = RedisConnector__get_keys key
      in case redis_mget [metadata_key, kv_key] w of
           (Inl e, w1) \<Rightarrow> (Inl e, w1)
         | (Inr results, w1) \<Rightarrow>
            (case results of
               [metadata_bytes, kv_bytes] \<Rightarrow>
                 (case metadata_bytes of
                    None \<Rightarrow> (Inr None, w1)
                  | Some mb \<Rightarrow>
                     (case deserialize d mb of
                        None \<Rightarrow> (Inl DeserializeError, w1)
                      | Some metadata \<Rightarrow>
                         (case allocate d (md_shape metadata) (md_dtype metadata)
                                 (md_fmt metadata) of
                            None \<Rightarrow>
                              (Inr None,
                               logger WARNING
                                 ''Failed to allocate memory during remote receive'' w1)
                          | Some memory_obj \<Rightarrow>
                             (case kv_bytes of
                                None \<Rightarrow>
                                  (Inr None,
                                   ref_count_down memory_obj
                                     (logger WARNING
                                        ''Key exists but KV cache does not exist.'' w1))
                              | Some kb \<Rightarrow>
                                 (case view_assign memory_obj (md_length metadata) kb of
                                    Inl exc \<Rightarrow>
                                      (Inr None, logger ERROR ''Failed to convert data'' w1)
                                  | Inr obj \<Rightarrow> (Inr (Some obj), w1))))))
             | _ \<Rightarrow> (Inr None, w1)))"

definition RedisConnector__put ::
  "collaborators \<Rightarrow> CacheEngineKey \<Rightarrow> MemoryObj \<Rightarrow> world \<Rightarrow> world" where
  "RedisConnector__put d key memory_obj w =
     (let kv_bytes = byte_array memory_obj;
          metadata_bytes = serialize d (metadata_of memory_obj);
          (metadata_key, kv_key) = RedisConnector__get_keys key;
          pipe = [Redis_SET kv_key kv_bytes, Redis_SET metadata_key metadata_bytes]
      in case pipeline_execute pipe w of
           (Inl exc, w1) \<Rightarrow> logger ERROR ''Failed to put data'' w1
         | (Inr _, w1) \<Rightarrow> w1)"



text \<open>
  The body of the inner loop of both \<^verbatim>\<open>_batched_get_non_blocking\<close> methods, from
  \<^verbatim>\<open>if metadata_bytes is None\<close> to the \<^verbatim>\<open>except\<close> clause, which is the same text in
  the two classes: \<open>None\<close> is the \<^verbatim>\<open>continue\<close> (nothing is appended, or the index is
  set to \<^verbatim>\<open>None\<close>), \<open>Some obj\<close> the object that is appended. Here the codec and the
  assignment are inside the \<^verbatim>\<open>try\<close>.
\<close>

definition receive_entry ::
  "collaborators \<Rightarrow> bytes option \<Rightarrow> bytes option \<Rightarrow> world \<Rightarrow> MemoryObj option \<times> world" where
  "receive_entry d metadata_bytes kv_bytes w =
     (case metadata_bytes of
        None \<Rightarrow> (None, w)
      | Some mb \<Rightarrow>
         (case deserialize d mb of
            None \<Rightarrow> (None, logger ERROR ''Failed to process key'' w)
          | Some metadata \<Rightarrow>
             (case allocate d (md_shape metadata) (md_dtype metadata) (md_fmt metadata) of
                None \<Rightarrow>
                  (None, logger WARNING ''Failed to allocate memory during remote receive'' w)
              | Some memory_obj \<Rightarrow>
                 (case kv_bytes of
                    None \<Rightarrow>
                      (None,
                       ref_count_down memory_obj
                         (logger WARNING ''Key exists but KV cache does not exist.'' w))
                  | Some kb \<Rightarrow>
                     (case view_assign memory_obj (md_length metadata) kb of
                        Inl exc \<Rightarrow> (None, logger ERROR ''Failed to process key'' w)
                      | Inr obj \<Rightarrow> (Some obj, w))))))"

text \<open>\<^verbatim>\<open>xs[i]\<close> for an index that is not negative.\<close>

definition item :: "'a list \<Rightarrow> nat \<Rightarrow> error + 'a" where
  "item xs i = (if i < length xs then Inr (xs ! i) else Inl IndexError)"

text \<open>
  \<^verbatim>\<open>for idx, key in enumerate(chunk_keys)\<close>: the two results of a key are read at
  \<^verbatim>\<open>idx * 2\<close> and \<^verbatim>\<open>idx * 2 + 1\<close>, outside the \<^verbatim>\<open>try\<close>.
\<close>

fun RedisConnector_process_chunk ::
  "collaborators \<Rightarrow> bytes option list \<Rightarrow> nat \<Rightarrow> CacheEngineKey list \<Rightarrow> MemoryObj list \<Rightarrow>
   world \<Rightarrow> (error + MemoryObj list) \<times> world" where
  "RedisConnector_process_chunk d mget_results idx [] results w = (Inr results, w)"
| "RedisConnector_process_chunk d mget_results idx (key # chunk_keys) results w =
     (case item mget_results (idx * 2) of
        Inl e \<Rightarrow> (Inl e, w)
      | Inr metadata_bytes \<Rightarrow>
         (case item mget_results (idx * 2 + 1) of
            Inl e \<Rightarrow> (Inl e, w)
          | Inr kv_bytes \<Rightarrow>
             (case receive_entry d metadata_bytes kv_bytes w of
                (None, w1) \<Rightarrow>
                  RedisConnector_process_chunk d mget_results (idx + 1) chunk_keys results w1
              | (Some memory_obj, w1) \<Rightarrow>
                  RedisConnector_process_chunk d mget_results (idx + 1) chunk_keys
                    (results @ [memory_obj]) w1)))"

text \<open>\<^verbatim>\<open>all_keys\<close>: the metadata key and the payload key of each key of the chunk.\<close>

fun RedisConnector_all_keys :: "CacheEngineKey list \<Rightarrow> string list \<Rightarrow> string list" where
  "RedisConnector_all_keys [] all_keys = all_keys"
| "RedisConnector_all_keys (key # chunk_keys) all_keys =
     (let (metadata_key, kv_key) = RedisConnector__get_keys key
      in RedisConnector_all_keys chunk_keys (all_keys @ [metadata_key, kv_key]))"

text \<open>
  \<^verbatim>\<open>for i in range(0, len(keys), self.chunk_size)\<close> with a positive step, one
  \<^verbatim>\<open>MGET\<close> for each chunk \<^verbatim>\<open>keys[i : i + self.chunk_size]\<close>.
\<close>

function RedisConnector_chunk_loop ::
  "collaborators \<Rightarrow> nat \<Rightarrow> CacheEngineKey list \<Rightarrow> nat \<Rightarrow> MemoryObj list \<Rightarrow> world \<Rightarrow>
   (error + MemoryObj list) \<times> world" where
  "RedisConnector_chunk_loop d chunk_size keys i results w =
     (if i < length keys \<and> 0 < chunk_size
      then (let chunk_keys = take chunk_size (drop i keys)
            in case redis_mget (RedisConnector_all_keys chunk_keys []) w of
                 (Inl e, w1) \<Rightarrow> (Inl e, w1)
               | (Inr mget_results, w1) \<Rightarrow>
                  (case RedisConnector_process_chunk d mget_results 0 chunk_keys results w1 of
                     (Inl e, w2) \<Rightarrow> (Inl e, w2)
                   | (Inr results', w2) \<Rightarrow>
                       RedisConnector_chunk_loop d chunk_size keys (i + chunk_size) results' w2))
      else (Inr results, w))"
  by pat_completeness auto
termination
  by (relation "measure (\<lambda>(d, chunk_size, keys, i, results, w). length keys - i)") auto

text \<open>
  \<^verbatim>\<open>_batched_get_non_blocking\<close>. The chunk size is the integer the connector was built
  with: \<^verbatim>\<open>range\<close> raises \<^verbatim>\<open>ValueError\<close> on a step of zero and is empty on a negative
  step.
\<close>

definition RedisConnector__batched_get_non_blocking ::
  "collaborators \<Rightarrow> int \<Rightarrow> string \<Rightarrow> CacheEngineKey list \<Rightarrow> world \<Rightarrow>
   (error + MemoryObj list) \<times> world" where
  "RedisConnector__batched_get_non_blocking d chunk_size lookup_id keys w =
     (if keys = [] then (Inr [], w)
      else if chunk_size = 0 then (Inl ValueError, w)
      else if chunk_size < 0 then (Inr [], w)
      else RedisConnector_chunk_loop d (nat chunk_size) keys 0 [] w)"

section \<open>RedisSentinelConnector (replicated)\<close>


definition RedisSentinelConnector_get ::
  "collaborators \<Rightarrow> CacheEngineKey \<Rightarrow> world \<Rightarrow> (error + MemoryObj option) \<times> world" where
  "RedisSentinelConnector_get d key w =
     (let key_str = to_string key
      in case redis_get (key_str @ ''metadata'') w of
           (Inl e, w1) \<Rightarrow> (Inl e, w1)
         | (Inr metadata_bytes, w1) \<Rightarrow>
            (case metadata_bytes of
               None \<Rightarrow> (Inr None, w1)
             | Some mb \<Rightarrow>
                (case deserialize d mb of
                   None \<Rightarrow> (Inl DeserializeError, w1)
                 | Some metadata \<Rightarrow>
                    (case allocate d (md_shape metadata) (md_dtype metadata)
                            (md_fmt metadata) of
                       None \<Rightarrow>
                         (Inr None,
                          logger WARNING
                            ''Failed to allocate memory during remote receive'' w1)
                     | Some memory_obj \<Rightarrow>
                        (case redis_get (key_str @ ''kv_bytes'') w1 of
                           (Inl e, w2) \<Rightarrow> (Inl e, w2)
                         | (Inr kv_bytes, w2) \<Rightarrow>
                            (case kv_bytes of
                               None \<Rightarrow>
                                 (case redis_delete (key_str @ ''metadata'')
                                         (logger WARNING
                                            ''Key exists but KV cache does not exist.'' w2) of
                                    (Inl e, w3) \<Rightarrow> (Inl e, w3)
                                  | (Inr _, w3) \<Rightarrow> (Inr None, w3))
                             | Some kb \<Rightarrow>
                                (case view_assign memory_obj (md_length metadata) kb of
                                   Inl e \<Rightarrow> (Inl e, w2)
                                 | Inr obj \<Rightarrow> (Inr (Some obj), w2))))))))"

definition RedisSentinelConnector_put ::
  "collaborators \<Rightarrow> CacheEngineKey \<Rightarrow> MemoryObj \<Rightarrow> world \<Rightarrow> (error + unit) \<times> world" where
  "RedisSentinelConnector_put d key memory_obj w =
     (let kv_bytes = byte_array memory_obj;
          metadata_bytes = serialize d (metadata_of memory_obj);
          key_str = to_string key
      in case redis_set (key_str @ ''metadata'') metadata_bytes w of
           (Inl e, w1) \<Rightarrow> (Inl e, w1)
         | (Inr _, w1) \<Rightarrow>
            (case redis_set (key_str @ ''kv_bytes'') kv_bytes w1 of
               (Inl e, w2) \<Rightarrow> (Inl e, w2)
             | (Inr _, w2) \<Rightarrow> (Inr (), ref_count_down memory_obj w2)))"

section \<open>The key-to-shard hash\<close>







section \<open>RedisClusterConnector (sharded)\<close>

definition RedisClusterConnector__get_keys_with_hash_tag ::
  "CacheEngineKey \<Rightarrow> string \<times> string" where
  "RedisClusterConnector__get_keys_with_hash_tag key =
     (let key_str = to_string key
      in (''{'' @ key_str @ ''}:metadata'', ''{'' @ key_str @ ''}:kv_bytes''))"





definition RedisClusterConnector__get ::
  "collaborators \<Rightarrow> CacheEngineKey \<Rightarrow> world \<Rightarrow> (error + MemoryObj option) \<times> world" where
  "RedisClusterConnector__get d key w =
     (let (metadata_key, kv_key) = RedisClusterConnector__get_keys_with_hash_tag key
      in case redis_mget [metadata_key, kv_key] w of
           (Inl e, w1) \<Rightarrow> (Inl e, w1)
         | (Inr results, w1) \<Rightarrow>
            (case results of
               [metadata_bytes, kv_bytes] \<Rightarrow>
                 (case metadata_bytes of
                    None \<Rightarrow> (Inr None, w1)
                  | Some mb \<Rightarrow>
                     (case deserialize d mb of
                        None \<Rightarrow> (Inl DeserializeError, w1)
                      | Some metadata \<Rightarrow>
                         (case allocate d (md_shape metadata) (md_dtype metadata)
                                 (md_fmt metadata) of
                            None \<Rightarrow>
                              (Inr None,
                               logger WARNING
                                 ''Failed to allocate memory during remote receive'' w1)
                          | Some memory_obj \<Rightarrow>
                             (case kv_bytes of
                                None \<Rightarrow>
                                  (Inr None,
                                   ref_count_down memory_obj
                                     (logger WARNING
                                        ''Key exists but KV cache does not exist.'' w1))
                              | Some kb \<Rightarrow>
                                 (case view_assign memory_obj (md_length metadata) kb of
                                    Inl exc \<Rightarrow>
                                      (Inr None, logger ERROR ''Failed to convert data'' w1)
                                  | Inr obj \<Rightarrow> (Inr (Some obj), w1))))))
             | _ \<Rightarrow> (Inr None, w1)))"

definition RedisClusterConnector__put ::
  "collaborators \<Rightarrow> CacheEngineKey \<Rightarrow> MemoryObj \<Rightarrow> world \<Rightarrow> world" where
  "RedisClusterConnector__put d key memory_obj w =
     (let kv_bytes = byte_array memory_obj;
          metadata_bytes = serialize d (metadata_of memory_obj);
          (metadata_key, kv_key) = RedisClusterConnector__get_keys_with_hash_tag key;
          pipe = [Redis_SET kv_key kv_bytes, Redis_SET metadata_key metadata_bytes]
      in case pipeline_execute pipe w of
           (Inl exc, w1) \<Rightarrow> logger ERROR ''Failed to put data'' w1
         | (Inr _, w1) \<Rightarrow> w1)"

text \<open>\<^verbatim>\<open>all_key_info\<close>: \<^verbatim>\<open>(idx, key, metadata_key, kv_key)\<close> for each key.\<close>

fun RedisClusterConnector_all_key_info ::
  "CacheEngineKey list \<Rightarrow> nat \<Rightarrow> (nat \<times> CacheEngineKey \<times> string \<times> string) list" where
  "RedisClusterConnector_all_key_info [] idx = []"
| "RedisClusterConnector_all_key_info (key # keys) idx =
     (let (metadata_key, kv_key) = RedisClusterConnector__get_keys_with_hash_tag key
      in (idx, key, metadata_key, kv_key) # RedisClusterConnector_all_key_info keys (idx + 1))"






section \<open>Priorities and the facade\<close>






















text \<open>
  What each facade method passes as \<^verbatim>\<open>priority=\<close> to \<^verbatim>\<open>submit_job\<close>, by class and
  method. \<^verbatim>\<open>RedisSentinelConnector\<close> has no executor: \<^verbatim>\<open>exists\<close>, \<^verbatim>\<open>exists_sync\<close>,
  \<^verbatim>\<open>get\<close> and \<^verbatim>\<open>put\<close> issue their store commands in their own body, and it defines
  no batched method; \<open>None\<close> stands for a method that submits nothing.
\<close>

datatype connector_class = Standalone | Replicated | Sharded




text \<open>
  The three classes implement one interface (\<^verbatim>\<open>RemoteConnector\<close>); which methods run is
  decided by the class of the connector. For the two classes with an executor these are the
  methods the jobs run.
\<close>

fun storage_keys :: "connector_class \<Rightarrow> CacheEngineKey \<Rightarrow> string \<times> string" where
  "storage_keys Standalone key = RedisConnector__get_keys key"
| "storage_keys Replicated key = (to_string key @ ''metadata'', to_string key @ ''kv_bytes'')"
| "storage_keys Sharded key = RedisClusterConnector__get_keys_with_hash_tag key"


fun run_get ::
  "connector_class \<Rightarrow> collaborators \<Rightarrow> CacheEngineKey \<Rightarrow> world \<Rightarrow>
   (error + MemoryObj option) \<times> world" where
  "run_get Standalone d key w = RedisConnector__get d key w"
| "run_get Replicated d key w = RedisSentinelConnector_get d key w"
| "run_get Sharded d key w = RedisClusterConnector__get d key w"

fun run_put ::
  "connector_class \<Rightarrow> collaborators \<Rightarrow> CacheEngineKey \<Rightarrow> MemoryObj \<Rightarrow> world \<Rightarrow>
   (error + unit) \<times> world" where
  "run_put Standalone d key memory_obj w = (Inr (), RedisConnector__put d key memory_obj w)"
| "run_put Replicated d key memory_obj w = RedisSentinelConnector_put d key memory_obj w"
| "run_put Sharded d key memory_obj w = (Inr (), RedisClusterConnector__put d key memory_obj w)"

section \<open>What the spec says a batched get returns\<close>

text \<open>
  The object of a key according to the spec: there is one when the metadata and the payload
  are both present, the metadata decodes, the allocation succeeds and the payload fits the
  allocated buffer; it is the allocated object holding the payload.
\<close>

definition present_object ::
  "collaborators \<Rightarrow> (string \<rightharpoonup> bytes) \<Rightarrow> string \<times> string \<Rightarrow> MemoryObj option" where
  "present_object d st ks =
     (case (st (fst ks), st (snd ks)) of
        (Some mb, Some kb) \<Rightarrow>
          (case deserialize d mb of
             None \<Rightarrow> None
           | Some metadata \<Rightarrow>
              (case allocate d (md_shape metadata) (md_dtype metadata) (md_fmt metadata) of
                 None \<Rightarrow> None
               | Some memory_obj \<Rightarrow>
                  (case view_assign memory_obj (md_length metadata) kb of
                     Inl e \<Rightarrow> None
                   | Inr obj \<Rightarrow> Some obj)))
      | _ \<Rightarrow> None)"



text \<open>
  The spec's "one ungrouped fetch" of the standalone connector: one \<^verbatim>\<open>MGET\<close> of the two
  keys of every key of the list, and the entries received in the order of the keys.
\<close>

definition pair_list :: "(string \<times> string) list \<Rightarrow> string list" where
  "pair_list ps = concat (map (\<lambda>(metadata_key, kv_key). [metadata_key, kv_key]) ps)"

fun receive_all ::
  "collaborators \<Rightarrow> (string \<rightharpoonup> bytes) \<Rightarrow> (string \<times> string) list \<Rightarrow> MemoryObj list \<Rightarrow> world \<Rightarrow>
   MemoryObj list \<times> world" where
  "receive_all d st [] results w = (results, w)"
| "receive_all d st (ks # rest) results w =
     (case receive_entry d (st (fst ks)) (st (snd ks)) w of
        (None, w1) \<Rightarrow> receive_all d st rest results w1
      | (Some memory_obj, w1) \<Rightarrow> receive_all d st rest (results @ [memory_obj]) w1)"

definition ungrouped_fetch ::
  "collaborators \<Rightarrow> CacheEngineKey list \<Rightarrow> world \<Rightarrow> (error + MemoryObj list) \<times> world" where
  "ungrouped_fetch d keys w =
     (let pairs = map RedisConnector__get_keys keys
      in case redis_mget (pair_list pairs) w of
           (Inl e, w1) \<Rightarrow> (Inl e, w1)
         | (Inr mget_results, w1) \<Rightarrow>
             (case receive_all d (store w) pairs [] w1 of
                (results, w2) \<Rightarrow> (Inr results, w2)))"

text \<open>The original indices held by the groups of \<^verbatim>\<open>_group_keys_by_slot\<close>.\<close>

definition group_indices :: "(nat \<times> (nat \<times> string) list) list \<Rightarrow> nat list" where
  "group_indices slot_groups = concat (map (\<lambda>g. map fst (snd g)) slot_groups)"

section \<open>A concrete instance\<close>

text \<open>
  An instance of the collaborators, to run the model on concrete inputs: a codec that writes
  the length, the dtype, the format and the shape as one byte each and refuses fewer than
  three bytes, and an allocator that answers a zeroed buffer of (product of the shape)
  times dtype bytes, or nothing beyond 64 bytes.
\<close>

definition byte_codec_serialize :: "RemoteMetadata \<Rightarrow> bytes" where
  "byte_codec_serialize m = map of_nat (md_length m # md_dtype m # md_fmt m # md_shape m)"

definition byte_codec_deserialize :: "bytes \<Rightarrow> RemoteMetadata option" where
  "byte_codec_deserialize bs =
     (case bs of
        l # dt # f # sh \<Rightarrow>
          Some \<lparr>md_length = unat l, md_shape = map unat sh, md_dtype = unat dt,
                md_fmt = unat f\<rparr>
      | _ \<Rightarrow> None)"

definition small_allocate :: "nat list \<Rightarrow> nat \<Rightarrow> nat \<Rightarrow> MemoryObj option" where
  "small_allocate sh dt f =
     (if prod_list sh * dt \<le> 64
      then Some \<lparr>byte_array = replicate (prod_list sh * dt) 0, get_shape = sh,
                 get_dtype = dt, get_memory_format = f\<rparr>
      else None)"

definition example_collaborators :: collaborators where
  "example_collaborators =
     \<lparr>serialize = byte_codec_serialize, deserialize = byte_codec_deserialize,
      allocate = small_allocate\<rparr>"

definition empty_world :: world where
  "empty_world = \<lparr>store = Map.empty, reachable = True, trace = [], log = [], released = []\<rparr>"

definition example_obj :: MemoryObj where
  "example_obj = \<lparr>byte_array = [1, 2, 3, 4], get_shape = [2], get_dtype = 2,
                  get_memory_format = 3\<rparr>"

text \<open>
  A store that holds the entries of the keys \<^verbatim>\<open>a\<close> and \<^verbatim>\<open>b\<close>, in the layout of the
  standalone and of the sharded connector, and nothing for any other key.
\<close>

definition mixed_world :: world where
  "mixed_world =
     empty_world\<lparr>store :=
       [''a:metadata'' \<mapsto> [4, 2, 3, 2], ''a:kv_bytes'' \<mapsto> [1, 2, 3, 4],
        ''b:metadata'' \<mapsto> [4, 2, 3, 2], ''b:kv_bytes'' \<mapsto> [5, 6, 7, 8],
        ''{a}:metadata'' \<mapsto> [4, 2, 3, 2], ''{a}:kv_bytes'' \<mapsto> [1, 2, 3, 4],
        ''{b}:metadata'' \<mapsto> [4, 2, 3, 2], ''{b}:kv_bytes'' \<mapsto> [5, 6, 7, 8]]\<rparr>"

definition mixed_keys :: "CacheEngineKey list" where
  "mixed_keys = [CacheEngineKey ''a'', CacheEngineKey ''x'', CacheEngineKey ''b'',
                 CacheEngineKey ''y'']"

section \<open>Basic facts\<close>

lemma issue_simps [simp]:
  "store (issue cmds w) = fold apply_command cmds (store w)"
  "trace (issue cmds w) = trace w @ cmds"
  "reachable (issue cmds w) = reachable w"
  "log (issue cmds w) = log w"
  "released (issue cmds w) = released w"
  by (simp_all add: issue_def)

lemma logger_simps [simp]:
  "store (logger lv msg w) = store w"
  "trace (logger lv msg w) = trace w"
  "reachable (logger lv msg w) = reachable w"
  "log (logger lv msg w) = log w @ [(lv, msg)]"
  "released (logger lv msg w) = released w"
  by (simp_all add: logger_def)

lemma ref_count_down_simps [simp]:
  "store (ref_count_down obj w) = store w"
  "trace (ref_count_down obj w) = trace w"
  "reachable (ref_count_down obj w) = reachable w"
  "log (ref_count_down obj w) = log w"
  "released (ref_count_down obj w) = released w @ [obj]"
  by (simp_all add: ref_count_down_def)

lemma get_keys_eq [simp]:
  "RedisConnector__get_keys k = (to_string k @ '':metadata'', to_string k @ '':kv_bytes'')"
  "RedisClusterConnector__get_keys_with_hash_tag k =
     (''{'' @ to_string k @ ''}:metadata'', ''{'' @ to_string k @ ''}:kv_bytes'')"
  by (simp_all add: RedisConnector__get_keys_def
      RedisClusterConnector__get_keys_with_hash_tag_def Let_def)

lemma empty_world_simps [simp]:
  "store empty_world = Map.empty"
  "reachable empty_world"
  "trace empty_world = []"
  "log empty_world = []"
  "released empty_world = []"
  by (simp_all add: empty_world_def)

section \<open>C4: the storage keys of the non-sharded connectors\<close>



section \<open>C8: co-location of the two keys of a cache key\<close>






section \<open>The concrete instance\<close>

lemma replicate4: "replicate 4 x = [x, x, x, x]"
  by (simp add: numeral_eq_Suc)


section \<open>C10: a batched put with lists of different lengths\<close>





section \<open>C2: the order of the two writes of a put\<close>

text \<open>
  The standalone and the sharded \<^verbatim>\<open>_put\<close> queue the payload write before the metadata
  write, as their comment asks (\<^verbatim>\<open>kv bytes needs to be set first to avoid race
  condition\<close>).
\<close>

lemma put_payload_first:
  assumes "reachable w" and "c \<noteq> Replicated"
  shows "trace (snd (run_put c d k v w)) =
           trace w @ [Redis_SET (snd (storage_keys c k)) (byte_array v),
                      Redis_SET (fst (storage_keys c k)) (serialize d (metadata_of v))]"
  using assms
  by (cases c) (simp_all add: RedisConnector__put_def RedisClusterConnector__put_def
      pipeline_execute_def)


section \<open>C3: failures inside a single-key get\<close>

text \<open>
  In the three classes the codec runs outside every \<^verbatim>\<open>try\<close> of the single-key get, and
  so does the store command: when the metadata bytes do not decode, or the store is
  unreachable, the exception leaves the method and nothing is logged.
\<close>

lemma get_malformed_metadata:
  assumes "reachable w" and "store w (fst (storage_keys c k)) = Some mb"
    and "deserialize d mb = None"
  shows "fst (run_get c d k w) = Inl DeserializeError \<and> log (snd (run_get c d k w)) = log w"
  using assms
  by (cases c) (simp_all add: RedisConnector__get_def RedisClusterConnector__get_def
      RedisSentinelConnector_get_def redis_mget_def redis_get_def Let_def)

lemma get_unreachable:
  assumes "\<not> reachable w"
  shows "run_get c d k w = (Inl ConnectionError, w)"
  using assms
  by (cases c) (simp_all add: RedisConnector__get_def RedisClusterConnector__get_def
      RedisSentinelConnector_get_def redis_mget_def redis_get_def Let_def)

text \<open>
  C3 fails on the code. A store that holds the one byte 7 under the metadata key of
  \<^verbatim>\<open>k\<close> (the example codec refuses fewer than three bytes): \<^verbatim>\<open>_get\<close> of the standalone
  and of the sharded connector raise instead of answering \<^verbatim>\<open>None\<close>, and log nothing;
  on an unreachable store they raise the connection error.
\<close>

theorem C3_get_raises:
  "RedisConnector__get example_collaborators (CacheEngineKey ''k'')
       (empty_world\<lparr>store := [''k:metadata'' \<mapsto> [7]]\<rparr>) =
     (Inl DeserializeError,
      empty_world\<lparr>store := [''k:metadata'' \<mapsto> [7]],
                  trace := [Redis_MGET [''k:metadata'', ''k:kv_bytes'']]\<rparr>) \<and>
   RedisClusterConnector__get example_collaborators (CacheEngineKey ''k'')
       (empty_world\<lparr>store := [''{k}:metadata'' \<mapsto> [7]]\<rparr>) =
     (Inl DeserializeError,
      empty_world\<lparr>store := [''{k}:metadata'' \<mapsto> [7]],
                  trace := [Redis_MGET [''{k}:metadata'', ''{k}:kv_bytes'']]\<rparr>) \<and>
   RedisConnector__get example_collaborators (CacheEngineKey ''k'')
       (empty_world\<lparr>reachable := False\<rparr>) =
     (Inl ConnectionError, empty_world\<lparr>reachable := False\<rparr>) \<and>
   RedisClusterConnector__get example_collaborators (CacheEngineKey ''k'')
       (empty_world\<lparr>reachable := False\<rparr>) =
     (Inl ConnectionError, empty_world\<lparr>reachable := False\<rparr>)"
  by (simp add: RedisConnector__get_def RedisClusterConnector__get_def redis_mget_def
      example_collaborators_def byte_codec_deserialize_def issue_def empty_world_def)

section \<open>C1: a get after a put\<close>


lemma metadata_of_simps [simp]:
  "md_length (metadata_of v) = length (byte_array v)"
  "md_shape (metadata_of v) = get_shape v"
  "md_dtype (metadata_of v) = get_dtype v"
  "md_fmt (metadata_of v) = get_memory_format v"
  by (simp_all add: metadata_of_def)



section \<open>C7: metadata present, payload absent\<close>




section \<open>The batched get of the standalone connector\<close>

lemma receive_entry_frame [simp]:
  "store (snd (receive_entry d mb kb w)) = store w"
  "reachable (snd (receive_entry d mb kb w)) = reachable w"
  "trace (snd (receive_entry d mb kb w)) = trace w"
  by (simp_all add: receive_entry_def split: option.splits sum.splits)

lemma receive_entry_object:
  "fst (receive_entry d (st (fst ks)) (st (snd ks)) w) = present_object d st ks"
  by (simp add: receive_entry_def present_object_def split: option.splits sum.splits)

lemma receive_entry_trace:
  "receive_entry d mb kb (w\<lparr>trace := t\<rparr>) =
     (fst (receive_entry d mb kb w), (snd (receive_entry d mb kb w))\<lparr>trace := t\<rparr>)"
  by (simp add: receive_entry_def logger_def ref_count_down_def split: option.splits sum.splits)

lemma receive_entry_frameD:
  "receive_entry d mb kb w = (r, w1) \<Longrightarrow>
   store w1 = store w \<and> reachable w1 = reachable w \<and> trace w1 = trace w"
  using receive_entry_frame [of d mb kb w] by simp

lemma receive_all_frame:
  "store (snd (receive_all d st ps results w)) = store w \<and>
   reachable (snd (receive_all d st ps results w)) = reachable w \<and>
   trace (snd (receive_all d st ps results w)) = trace w"
proof (induction ps arbitrary: results w)
  case Nil
  show ?case by simp
next
  case (Cons ks ps)
  obtain r w1 where e: "receive_entry d (st (fst ks)) (st (snd ks)) w = (r, w1)"
    by (cases "receive_entry d (st (fst ks)) (st (snd ks)) w")
  show ?case
    using Cons.IH [of _ w1] receive_entry_frameD [OF e] e
    by (cases r) simp_all
qed

lemma receive_all_results:
  "fst (receive_all d st ps results w) = results @ List.map_filter (present_object d st) ps"
proof (induction ps arbitrary: results w)
  case Nil
  show ?case by (simp add: map_filter_simps)
next
  case (Cons ks ps)
  obtain r w1 where e: "receive_entry d (st (fst ks)) (st (snd ks)) w = (r, w1)"
    by (cases "receive_entry d (st (fst ks)) (st (snd ks)) w")
  have r: "r = present_object d st ks"
    using receive_entry_object [of d st ks w] e by simp
  show ?case
    using Cons.IH [of _ w1] e r
    by (cases "present_object d st ks") (simp_all add: map_filter_simps)
qed

lemma receive_all_append:
  "receive_all d st (ps @ qs) results w =
     receive_all d st qs (fst (receive_all d st ps results w))
       (snd (receive_all d st ps results w))"
proof (induction ps arbitrary: results w)
  case Nil
  show ?case by simp
next
  case (Cons ks ps)
  show ?case
    by (simp add: Cons.IH split: prod.splits option.splits)
qed

lemma receive_all_trace:
  "receive_all d st ps results (w\<lparr>trace := t\<rparr>) =
     (fst (receive_all d st ps results w), (snd (receive_all d st ps results w))\<lparr>trace := t\<rparr>)"
proof (induction ps arbitrary: results w)
  case Nil
  show ?case by simp
next
  case (Cons ks ps)
  show ?case
    by (simp add: Cons.IH receive_entry_trace split: prod.splits option.splits)
qed

lemma all_keys_eq:
  "RedisConnector_all_keys chunk_keys all_keys =
     all_keys @ concat (map (\<lambda>key. [to_string key @ '':metadata'', to_string key @ '':kv_bytes''])
                          chunk_keys)"
  by (induction chunk_keys arbitrary: all_keys) simp_all

lemma get_keys_fun:
  "RedisConnector__get_keys = (\<lambda>k. (to_string k @ '':metadata'', to_string k @ '':kv_bytes''))"
  "RedisClusterConnector__get_keys_with_hash_tag =
     (\<lambda>k. (''{'' @ to_string k @ ''}:metadata'', ''{'' @ to_string k @ ''}:kv_bytes''))"
  by (rule ext, simp)+

lemma process_chunk_step:
  assumes "item mget_results (idx * 2) = Inr mb" and "item mget_results (idx * 2 + 1) = Inr kb"
    and "receive_entry d mb kb w = (r, w1)"
  shows "RedisConnector_process_chunk d mget_results idx (key # chunk_keys) results w =
         RedisConnector_process_chunk d mget_results (idx + 1) chunk_keys
           (case r of None \<Rightarrow> results | Some memory_obj \<Rightarrow> results @ [memory_obj]) w1"
  using assms by (cases r) simp_all

lemma receive_all_step:
  assumes "receive_entry d (st (fst ks)) (st (snd ks)) w = (r, w1)"
  shows "receive_all d st (ks # rest) results w =
         receive_all d st rest
           (case r of None \<Rightarrow> results | Some memory_obj \<Rightarrow> results @ [memory_obj]) w1"
  using assms by (cases r) simp_all

lemma pair_list_simps [simp]:
  "pair_list [] = []"
  "pair_list ((m, p) # ps) = m # p # pair_list ps"
  "pair_list (ps @ qs) = pair_list ps @ pair_list qs"
  by (simp_all add: pair_list_def)

lemma length_pair_list [simp]: "length (pair_list ps) = 2 * length ps"
  by (induction ps) auto

lemma process_chunk_eq:
  assumes "length pre = 2 * idx"
  shows "RedisConnector_process_chunk d
           (pre @ map st (pair_list (map RedisConnector__get_keys chunk_keys)))
           idx chunk_keys results w =
         (Inr (fst (receive_all d st (map RedisConnector__get_keys chunk_keys) results w)),
          snd (receive_all d st (map RedisConnector__get_keys chunk_keys) results w))"
  using assms
proof (induction chunk_keys arbitrary: pre idx results w)
  case Nil
  show ?case by simp
next
  case (Cons key chunk_keys)
  obtain m p where mp: "RedisConnector__get_keys key = (m, p)"
    by (cases "RedisConnector__get_keys key")
  define mr where "mr = pre @ map st (pair_list (map RedisConnector__get_keys (key # chunk_keys)))"
  have mr: "mr = (pre @ [st m, st p]) @ map st (pair_list (map RedisConnector__get_keys chunk_keys))"
    by (simp add: mr_def mp del: get_keys_eq)
  have i1: "item mr (idx * 2) = Inr (st m)"
    using Cons.prems by (simp add: mr item_def nth_append mult.commute del: get_keys_eq)
  have i2: "item mr (idx * 2 + 1) = Inr (st p)"
    using Cons.prems by (simp add: mr item_def nth_append mult.commute del: get_keys_eq)
  obtain r w1 where e: "receive_entry d (st m) (st p) w = (r, w1)"
    by (cases "receive_entry d (st m) (st p) w")
  have e': "receive_entry d (st (fst (m, p))) (st (snd (m, p))) w = (r, w1)"
    using e by simp
  have len: "length (pre @ [st m, st p]) = 2 * (idx + 1)"
    using Cons.prems by simp
  have "RedisConnector_process_chunk d mr idx (key # chunk_keys) results w =
        RedisConnector_process_chunk d mr (idx + 1) chunk_keys
          (case r of None \<Rightarrow> results | Some memory_obj \<Rightarrow> results @ [memory_obj]) w1"
    by (rule process_chunk_step [OF i1 i2 e])
  also have "\<dots> =
      (Inr (fst (receive_all d st (map RedisConnector__get_keys chunk_keys)
                   (case r of None \<Rightarrow> results | Some memory_obj \<Rightarrow> results @ [memory_obj]) w1)),
       snd (receive_all d st (map RedisConnector__get_keys chunk_keys)
              (case r of None \<Rightarrow> results | Some memory_obj \<Rightarrow> results @ [memory_obj]) w1))"
    unfolding mr by (rule Cons.IH [OF len])
  also have "receive_all d st (map RedisConnector__get_keys chunk_keys)
               (case r of None \<Rightarrow> results | Some memory_obj \<Rightarrow> results @ [memory_obj]) w1 =
             receive_all d st (map RedisConnector__get_keys (key # chunk_keys)) results w"
    unfolding list.map mp by (rule receive_all_step [OF e', symmetric])
  finally show ?case
    unfolding mr_def .
qed

lemma all_keys_pair_list:
  "RedisConnector_all_keys chunk_keys all_keys =
     all_keys @ pair_list (map RedisConnector__get_keys chunk_keys)"
  by (induction chunk_keys arbitrary: all_keys) simp_all

lemma mget_frame:
  "reachable w \<Longrightarrow>
   redis_mget ks w = (Inr (map (store w) ks), w\<lparr>trace := trace w @ [Redis_MGET ks]\<rparr>)"
  by (simp add: redis_mget_def issue_def)

lemma chunk_loop_eq:
  assumes "reachable w" and "0 < chunk_size"
  shows "\<exists>t. RedisConnector_chunk_loop d chunk_size keys i results w =
           (Inr (fst (receive_all d (store w) (map RedisConnector__get_keys (drop i keys))
                        results w)),
            (snd (receive_all d (store w) (map RedisConnector__get_keys (drop i keys))
                    results w))\<lparr>trace := t\<rparr>)"
  using assms(1)
proof (induction "length keys - i" arbitrary: i results w rule: less_induct)
  case less
  show ?case
  proof (cases "i < length keys")
    case False
    then have "RedisConnector_chunk_loop d chunk_size keys i results w = (Inr results, w)"
      by (subst RedisConnector_chunk_loop.simps) simp
    moreover have "w = w\<lparr>trace := trace w\<rparr>" by simp
    ultimately show ?thesis
      using False by (intro exI [of _ "trace w"]) simp
  next
    case True
    define chunk where "chunk = take chunk_size (drop i keys)"
    define w1 where "w1 = w\<lparr>trace := trace w @ [Redis_MGET (RedisConnector_all_keys chunk [])]\<rparr>"
    define ra where "ra = receive_all d (store w) (map RedisConnector__get_keys chunk) results w"
    define w2 where "w2 = (snd ra)\<lparr>trace := trace w1\<rparr>"
    have mg: "redis_mget (RedisConnector_all_keys chunk []) w =
                (Inr (map (store w) (RedisConnector_all_keys chunk [])), w1)"
      using less.prems by (simp add: mget_frame w1_def)
    have pc: "RedisConnector_process_chunk d
                (map (store w) (RedisConnector_all_keys chunk [])) 0 chunk results w1 =
              (Inr (fst ra), w2)"
      using process_chunk_eq [of "[]" 0 d "store w" chunk results w1]
        receive_all_trace [where d = d and st = "store w" and results = results and w = w
          and ps = "map RedisConnector__get_keys chunk" and t = "trace w1"]
      by (simp add: all_keys_pair_list ra_def w2_def w1_def del: get_keys_eq)
    have w2: "reachable w2" "store w2 = store w"
      using receive_all_frame [of d "store w" "map RedisConnector__get_keys chunk" results w]
        less.prems by (simp_all add: w2_def ra_def)
    have unfold: "RedisConnector_chunk_loop d chunk_size keys i results w =
            RedisConnector_chunk_loop d chunk_size keys (i + chunk_size) (fst ra) w2"
      using True assms(2) mg pc
      by (subst RedisConnector_chunk_loop.simps) (simp add: chunk_def [symmetric] Let_def)
    have "length keys - (i + chunk_size) < length keys - i"
      using True assms(2) by simp
    from less.hyps [OF this w2(1), of "fst ra"] obtain t where
      ih: "RedisConnector_chunk_loop d chunk_size keys (i + chunk_size) (fst ra) w2 =
        (Inr (fst (receive_all d (store w)
                     (map RedisConnector__get_keys (drop (i + chunk_size) keys)) (fst ra) w2)),
         (snd (receive_all d (store w)
                 (map RedisConnector__get_keys (drop (i + chunk_size) keys)) (fst ra) w2))
           \<lparr>trace := t\<rparr>)"
      by (auto simp: w2(2))
    have "drop (i + chunk_size) keys = drop chunk_size (drop i keys)"
      by (simp add: add.commute)
    then have split: "drop i keys = chunk @ drop (i + chunk_size) keys"
      unfolding chunk_def by (simp only: append_take_drop_id)
    have "receive_all d (store w) (map RedisConnector__get_keys (drop i keys)) results w =
          receive_all d (store w) (map RedisConnector__get_keys (drop (i + chunk_size) keys))
            (fst ra) (snd ra)"
      by (simp only: split map_append receive_all_append ra_def)
    moreover have "receive_all d (store w)
                     (map RedisConnector__get_keys (drop (i + chunk_size) keys)) (fst ra) w2 =
          (fst (receive_all d (store w)
                  (map RedisConnector__get_keys (drop (i + chunk_size) keys)) (fst ra) (snd ra)),
           (snd (receive_all d (store w)
                  (map RedisConnector__get_keys (drop (i + chunk_size) keys)) (fst ra) (snd ra)))
             \<lparr>trace := trace w1\<rparr>)"
      unfolding w2_def by (rule receive_all_trace)
    ultimately show ?thesis
      unfolding unfold ih by (intro exI [of _ t]) simp
  qed
qed


lemma chunk_loop_unreachable:
  assumes "\<not> reachable w" and "i < length keys" and "0 < chunk_size"
  shows "RedisConnector_chunk_loop d chunk_size keys i results w = (Inl ConnectionError, w)"
  using assms
  by (subst RedisConnector_chunk_loop.simps) (simp add: redis_mget_def Let_def)

lemma batched_get_reachable:
  assumes "reachable w" and "0 < chunk_size"
  shows "\<exists>t. RedisConnector__batched_get_non_blocking d chunk_size lookup_id keys w =
           (Inr (fst (receive_all d (store w) (map RedisConnector__get_keys keys) [] w)),
            (snd (receive_all d (store w) (map RedisConnector__get_keys keys) [] w))
              \<lparr>trace := t\<rparr>)"
proof (cases "keys = []")
  case True
  then show ?thesis
    by (intro exI [of _ "trace w"]) (simp add: RedisConnector__batched_get_non_blocking_def)
next
  case False
  then show ?thesis
    using chunk_loop_eq [OF assms(1), of "nat chunk_size" d keys 0 "[]"] assms(2)
    by (simp add: RedisConnector__batched_get_non_blocking_def del: get_keys_eq)
qed

lemma ungrouped_fetch_reachable:
  assumes "reachable w"
  shows "ungrouped_fetch d keys w =
           (Inr (fst (receive_all d (store w) (map RedisConnector__get_keys keys) [] w)),
            (snd (receive_all d (store w) (map RedisConnector__get_keys keys) [] w))
              \<lparr>trace := trace w @
                 [Redis_MGET (pair_list (map RedisConnector__get_keys keys))]\<rparr>)"
  using assms
    receive_all_trace [where d = d and st = "store w" and results = "[]" and w = w
      and ps = "map RedisConnector__get_keys keys"
      and t = "trace w @ [Redis_MGET (pair_list (map RedisConnector__get_keys keys))]"]
  by (simp add: ungrouped_fetch_def mget_frame Let_def del: get_keys_eq
      split: prod.splits)

lemma batched_get_one_chunk:
  assumes "keys \<noteq> []"
  shows "RedisConnector__batched_get_non_blocking d (int (length keys)) lookup_id keys w =
         ungrouped_fetch d keys w"
proof (cases "reachable w")
  case False
  then show ?thesis
    using assms chunk_loop_unreachable [of w 0 keys "length keys" d "[]"]
    by (simp add: RedisConnector__batched_get_non_blocking_def ungrouped_fetch_def
        redis_mget_def Let_def)
next
  case True
  define w1 where
    "w1 = w\<lparr>trace := trace w @ [Redis_MGET (RedisConnector_all_keys keys [])]\<rparr>"
  define ra where "ra = receive_all d (store w) (map RedisConnector__get_keys keys) [] w1"
  have mg: "redis_mget (RedisConnector_all_keys keys []) w =
              (Inr (map (store w) (RedisConnector_all_keys keys [])), w1)"
    using True by (simp add: mget_frame w1_def)
  have pc: "RedisConnector_process_chunk d
              (map (store w) (RedisConnector_all_keys keys [])) 0 keys [] w1 =
            (Inr (fst ra), snd ra)"
    using process_chunk_eq [of "[]" 0 d "store w" keys "[]" w1]
    by (simp add: all_keys_pair_list ra_def del: get_keys_eq)
  have stop: "RedisConnector_chunk_loop d (length keys) keys (length keys) (fst ra) (snd ra) =
                (Inr (fst ra), snd ra)"
    by (subst RedisConnector_chunk_loop.simps) simp
  have "RedisConnector_chunk_loop d (length keys) keys 0 [] w = (Inr (fst ra), snd ra)"
    using assms mg pc stop
    by (subst RedisConnector_chunk_loop.simps) (simp add: Let_def)
  moreover have "ungrouped_fetch d keys w = (Inr (fst ra), snd ra)"
    using mg
    by (simp add: ungrouped_fetch_def all_keys_pair_list ra_def Let_def
        split: prod.splits del: get_keys_eq)
  ultimately show ?thesis
    using assms by (simp add: RedisConnector__batched_get_non_blocking_def)
qed

text \<open>
  C6: for a key list of length N and a chunk size C with 0 < C < N, the standalone batched
  get returns what one ungrouped fetch of all N keys returns: the same error or the same
  list of objects, with the same log entries, the same released objects and the same
  store; only the commands sent differ. Run with the chunk size N, the method is the
  ungrouped fetch itself.
\<close>

theorem C6_chunking_transparent:
  assumes "0 < C" and "C < int (length keys)"
  shows "fst (RedisConnector__batched_get_non_blocking d C lookup_id keys w) =
           fst (ungrouped_fetch d keys w) \<and>
         log (snd (RedisConnector__batched_get_non_blocking d C lookup_id keys w)) =
           log (snd (ungrouped_fetch d keys w)) \<and>
         released (snd (RedisConnector__batched_get_non_blocking d C lookup_id keys w)) =
           released (snd (ungrouped_fetch d keys w)) \<and>
         store (snd (RedisConnector__batched_get_non_blocking d C lookup_id keys w)) =
           store (snd (ungrouped_fetch d keys w)) \<and>
         RedisConnector__batched_get_non_blocking d (int (length keys)) lookup_id keys w =
           ungrouped_fetch d keys w"
proof -
  have ne: "keys \<noteq> []" using assms by auto
  have "fst (RedisConnector__batched_get_non_blocking d C lookup_id keys w) =
           fst (ungrouped_fetch d keys w) \<and>
         log (snd (RedisConnector__batched_get_non_blocking d C lookup_id keys w)) =
           log (snd (ungrouped_fetch d keys w)) \<and>
         released (snd (RedisConnector__batched_get_non_blocking d C lookup_id keys w)) =
           released (snd (ungrouped_fetch d keys w)) \<and>
         store (snd (RedisConnector__batched_get_non_blocking d C lookup_id keys w)) =
           store (snd (ungrouped_fetch d keys w))"
  proof (cases "reachable w")
    case True
    from batched_get_reachable [OF True assms(1), of d lookup_id keys]
    obtain t where "RedisConnector__batched_get_non_blocking d C lookup_id keys w =
           (Inr (fst (receive_all d (store w) (map RedisConnector__get_keys keys) [] w)),
            (snd (receive_all d (store w) (map RedisConnector__get_keys keys) [] w))
              \<lparr>trace := t\<rparr>)" by blast
    then show ?thesis
      by (simp add: ungrouped_fetch_reachable [OF True] del: get_keys_eq)
  next
    case False
    then show ?thesis
      using ne assms(1) chunk_loop_unreachable [of w 0 keys "nat C" d "[]"]
      by (simp add: RedisConnector__batched_get_non_blocking_def ungrouped_fetch_def
          redis_mget_def Let_def)
  qed
  then show ?thesis
    using batched_get_one_chunk [OF ne] by simp
qed

section \<open>The batched get of the sharded connector\<close>

lemma group_indices_simps [simp]:
  "group_indices [] = []"
  "group_indices ((s, es) # gs) = map fst es @ group_indices gs"
  by (simp_all add: group_indices_def)

lemma all_key_info_length [simp]:
  "length (RedisClusterConnector_all_key_info keys idx) = length keys"
  by (induction keys arbitrary: idx) simp_all












section \<open>C5: what a batched get returns, and in which order\<close>




lemma mixed_world_reachable: "reachable mixed_world"
  by (simp add: mixed_world_def)

lemma mixed_objects:
  "List.map_filter (\<lambda>key. present_object example_collaborators (store mixed_world)
                            (RedisConnector__get_keys key)) mixed_keys =
     [example_obj, example_obj\<lparr>byte_array := [5, 6, 7, 8]\<rparr>]"
  "List.map_filter (\<lambda>key. present_object example_collaborators (store mixed_world)
                            (RedisClusterConnector__get_keys_with_hash_tag key)) mixed_keys =
     [example_obj, example_obj\<lparr>byte_array := [5, 6, 7, 8]\<rparr>]"
  by (simp_all add: mixed_keys_def mixed_world_def map_filter_simps present_object_def
      example_collaborators_def byte_codec_deserialize_def small_allocate_def view_assign_def
      example_obj_def replicate4)


section \<open>C6: a mixed batch in chunks\<close>

lemma mixed_fetch:
  "fst (ungrouped_fetch example_collaborators mixed_keys mixed_world) =
     Inr [example_obj, example_obj\<lparr>byte_array := [5, 6, 7, 8]\<rparr>]"
proof -
  have "List.map_filter (present_object example_collaborators (store mixed_world))
          (map RedisConnector__get_keys mixed_keys) =
        List.map_filter (\<lambda>key. present_object example_collaborators (store mixed_world)
                            (RedisConnector__get_keys key)) mixed_keys"
    by (simp add: map_filter_def filter_map comp_def del: get_keys_eq)
  then show ?thesis
    unfolding ungrouped_fetch_reachable [OF mixed_world_reachable] mixed_objects
    by (simp add: receive_all_results del: get_keys_eq)
qed

theorem C6_chunking_transparent_witness:
  "fst (RedisConnector__batched_get_non_blocking example_collaborators 3 ''id'' mixed_keys
          mixed_world) =
     Inr [example_obj, example_obj\<lparr>byte_array := [5, 6, 7, 8]\<rparr>] \<and>
   fst (RedisConnector__batched_get_non_blocking example_collaborators 1 ''id'' mixed_keys
          mixed_world) =
     Inr [example_obj, example_obj\<lparr>byte_array := [5, 6, 7, 8]\<rparr>]"
proof -
  have p: "(0::int) < 3" "(3::int) < int (length mixed_keys)"
    "(0::int) < 1" "(1::int) < int (length mixed_keys)"
    by (simp_all add: mixed_keys_def)
  from C6_chunking_transparent [OF p(1,2), of example_collaborators "''id''" mixed_world]
    C6_chunking_transparent [OF p(3,4), of example_collaborators "''id''" mixed_world]
  show ?thesis
    unfolding mixed_fetch by blast
qed

section \<open>C9: priorities\<close>







end
